theory Spec2Isabelle
  imports Main "HOL-Library.Sublist"
begin

section \<open>Python values, errors and files\<close>

text \<open>
  The tokenizer of \<^verbatim>\<open>keras_nlp/models/gpt_neo_x/gpt_neo_x_tokenizer.py\<close> is a
  subclass of \<^verbatim>\<open>BytePairTokenizer\<close>. Its arguments are dynamically typed: the
  docstring allows a vocabulary that is a string (a file path) or a dict, and merges that
  are a string (a file path) or a list. Keyword arguments are a dict from names to values.
\<close>

datatype py_value =
    PyNone
  | PyBool bool
  | PyInt int
  | PyStr string
  | PyList "string list"
  | PyDict "string \<rightharpoonup> int"

text \<open>
  Exceptions as values. \<open>ValueError\<close> carries its message, \<open>TypeError\<close> the
  keyword argument that the call machinery rejects, \<open>KeyError\<close> the key that was not
  found, and \<open>EngineError\<close> stands for every failure inside the byte-pair engine's own
  constructor (an argument of the wrong type, a file reference that does not resolve).
\<close>

datatype py_error =
    ValueError string
  | TypeError string
  | KeyError string
  | EngineError

text \<open>The files a path may refer to: JSON vocabularies and merge-rule files by path.\<close>

record files =
  json_files :: "string \<rightharpoonup> (string \<rightharpoonup> int)"
  merge_files :: "string \<rightharpoonup> string list"

section \<open>The byte-pair engine\<close>

record BytePairTokenizer =
  vocab_map :: "string \<rightharpoonup> int"
  merge_rules :: "string list"
  unsplittable :: "string list"
  engine_options :: "string \<rightharpoonup> py_value"

text \<open>
  Modelled from the spec: \<^verbatim>\<open>keras_nlp/tokenizers/byte_pair_tokenizer.py\<close> is not
  among the sources. The vocabulary is an in-memory token-to-id mapping or a file path to a
  JSON-encoded mapping, resolved once at construction.
\<close>

definition load_vocabulary :: "files \<Rightarrow> py_value \<Rightarrow> py_error + (string \<rightharpoonup> int)" where
  "load_vocabulary fs vocabulary =
     (case vocabulary of
        PyStr path \<Rightarrow> (case json_files fs path of None \<Rightarrow> Inl EngineError | Some d \<Rightarrow> Inr d)
      | PyDict d \<Rightarrow> Inr d
      | _ \<Rightarrow> Inl EngineError)"

text \<open>
  Modelled from the spec: merges are an in-memory ordered list of merge-rule strings or a
  file path to a newline-delimited merge-rule file, resolved once at construction.
\<close>

definition load_merges :: "files \<Rightarrow> py_value \<Rightarrow> py_error + string list" where
  "load_merges fs merges =
     (case merges of
        PyStr path \<Rightarrow> (case merge_files fs path of None \<Rightarrow> Inl EngineError | Some ms \<Rightarrow> Inr ms)
      | PyList ms \<Rightarrow> Inr ms
      | _ \<Rightarrow> Inl EngineError)"

text \<open>
  Modelled from the spec: the engine's \<open>Construct(vocabulary, merges, unsplittable_tokens,
  options)\<close>. It resolves the two references, and retains them, the unsplittable tokens
  and its options for the object's lifetime.
\<close>

definition BytePairTokenizer_init ::
  "files \<Rightarrow> py_value \<Rightarrow> py_value \<Rightarrow> string list \<Rightarrow> (string \<rightharpoonup> py_value)
     \<Rightarrow> py_error + BytePairTokenizer" where
  "BytePairTokenizer_init fs vocabulary merges unsplittable_tokens kwargs =
     (case load_vocabulary fs vocabulary of
        Inl e \<Rightarrow> Inl e
      | Inr v \<Rightarrow>
          (case load_merges fs merges of
             Inl e \<Rightarrow> Inl e
           | Inr ms \<Rightarrow>
               Inr \<lparr>vocab_map = v, merge_rules = ms, unsplittable = unsplittable_tokens,
                    engine_options = kwargs\<rparr>))"

text \<open>Modelled from the spec: \<open>GetVocabulary() \<rightarrow> mapping\<close> of the engine.\<close>

definition get_vocabulary :: "'a BytePairTokenizer_scheme \<Rightarrow> (string \<rightharpoonup> int)" where
  "get_vocabulary self = vocab_map self"

text \<open>Modelled from the spec: \<open>TokenToId(token) \<rightarrow> id | fails with LookupError\<close>.\<close>

definition token_to_id :: "'a BytePairTokenizer_scheme \<Rightarrow> string \<Rightarrow> py_error + int" where
  "token_to_id self token =
     (case vocab_map self token of None \<Rightarrow> Inl (KeyError token) | Some i \<Rightarrow> Inr i)"

text \<open>
  Modelled from the spec: the engine's configuration is its vocabulary reference, its
  merges reference, its unsplittable tokens and its options.
\<close>

definition BytePairTokenizer_get_config ::
  "'a BytePairTokenizer_scheme \<Rightarrow> (string \<rightharpoonup> py_value)" where
  "BytePairTokenizer_get_config self =
     (engine_options self)
       (''vocabulary'' \<mapsto> PyDict (vocab_map self),
        ''merges'' \<mapsto> PyList (merge_rules self),
        ''unsplittable_tokens'' \<mapsto> PyList (unsplittable self))"

section \<open>Python's call and dict semantics used by the wrapper\<close>

text \<open>
  \<^verbatim>\<open>f(a=x, **kwargs)\<close> raises \<open>TypeError\<close> (multiple values for keyword argument)
  when \<open>kwargs\<close> has the key \<open>a\<close> too.
\<close>

definition duplicate_keyword :: "string list \<Rightarrow> (string \<rightharpoonup> py_value) \<Rightarrow> string option" where
  "duplicate_keyword names kwargs = find (\<lambda>k. kwargs k \<noteq> None) names"

text \<open>\<^verbatim>\<open>del d[k]\<close> raises \<open>KeyError\<close> when the key is absent.\<close>

definition py_del :: "(string \<rightharpoonup> py_value) \<Rightarrow> string \<Rightarrow> py_error + (string \<rightharpoonup> py_value)" where
  "py_del d k = (if d k = None then Inl (KeyError k) else Inr (d(k := None)))"

section \<open>GPTNeoXTokenizer\<close>

record GPTNeoXTokenizer = BytePairTokenizer +
  end_token_id :: int
  start_token_id :: int
  pad_token_id :: int

definition end_token :: string where
  "end_token = ''<|endoftext|>''"

text \<open>
  The message of the \<open>ValueError\<close> of \<open>__init__\<close>, an f-string over the token. Python
  prints the token between single quotes inside backquotes, and the word
  \<^verbatim>\<open>vocabulary\<close> between backquotes; \<open>CHR 0x60\<close> is the backquote and
  \<open>CHR 0x27\<close> the single quote.
\<close>

definition backquoted :: "string \<Rightarrow> string" where
  "backquoted s = [CHR 0x60] @ s @ [CHR 0x60]"

definition single_quoted :: "string \<Rightarrow> string" where
  "single_quoted s = [CHR 0x27] @ s @ [CHR 0x27]"

definition cannot_find_token :: "string \<Rightarrow> string" where
  "cannot_find_token tok =
     ''Cannot find token '' @ backquoted (single_quoted tok) @ '' in the provided ''
     @ backquoted ''vocabulary'' @ ''. Please provide '' @ backquoted (single_quoted tok)
     @ '' in your '' @ backquoted ''vocabulary'' @ '' or use a pretrained ''
     @ backquoted ''vocabulary'' @ '' name.''"

text \<open>
  The call \<^verbatim>\<open>super().__init__(vocabulary=vocabulary, merges=merges,
  unsplittable_tokens=[end_token], **kwargs)\<close> of lines 55 to 60.
\<close>

definition super_init ::
  "files \<Rightarrow> py_value \<Rightarrow> py_value \<Rightarrow> string list \<Rightarrow> (string \<rightharpoonup> py_value)
     \<Rightarrow> py_error + BytePairTokenizer" where
  "super_init fs vocabulary merges unsplittable_tokens kwargs =
     (case duplicate_keyword [''vocabulary'', ''merges'', ''unsplittable_tokens''] kwargs of
        Some k \<Rightarrow> Inl (TypeError k)
      | None \<Rightarrow> BytePairTokenizer_init fs vocabulary merges unsplittable_tokens kwargs)"

text \<open>\<open>GPTNeoXTokenizer.__init__\<close>, lines 46 to 73.\<close>

definition GPTNeoXTokenizer_init ::
  "files \<Rightarrow> py_value \<Rightarrow> py_value \<Rightarrow> (string \<rightharpoonup> py_value) \<Rightarrow> py_error + GPTNeoXTokenizer" where
  "GPTNeoXTokenizer_init fs vocabulary merges kwargs =
     (case super_init fs vocabulary merges [end_token] kwargs of
        Inl e \<Rightarrow> Inl e
      | Inr self \<Rightarrow>
          if end_token \<notin> dom (get_vocabulary self)
          then Inl (ValueError (cannot_find_token end_token))
          else
            (case token_to_id self end_token of
               Inl e \<Rightarrow> Inl e
             | Inr i \<Rightarrow>
                 (let end_id = i;
                      start_id = end_id;
                      pad_id = 0
                  in Inr (BytePairTokenizer.extend self
                            (GPTNeoXTokenizer.fields end_id start_id pad_id)))))"

text \<open>\<open>GPTNeoXTokenizer.get_config\<close>, lines 75 to 81.\<close>

definition get_config :: "GPTNeoXTokenizer \<Rightarrow> py_error + (string \<rightharpoonup> py_value)" where
  "get_config self =
     (let config = BytePairTokenizer_get_config self
      in py_del config ''unsplittable_tokens'')"

text \<open>
  Modelled from the spec: \<open>Construct(GetConfiguration(t))\<close>, the call
  \<^verbatim>\<open>GPTNeoXTokenizer(**config)\<close>. The keys \<open>vocabulary\<close> and \<open>merges\<close> bind the
  two named parameters (a missing one is a \<open>TypeError\<close>), the remaining keys are
  \<open>kwargs\<close>.
\<close>

definition from_config :: "files \<Rightarrow> (string \<rightharpoonup> py_value) \<Rightarrow> py_error + GPTNeoXTokenizer" where
  "from_config fs config =
     (case config ''vocabulary'' of
        None \<Rightarrow> Inl (TypeError ''vocabulary'')
      | Some vocabulary \<Rightarrow>
          (case config ''merges'' of
             None \<Rightarrow> Inl (TypeError ''merges'')
           | Some merges \<Rightarrow>
               GPTNeoXTokenizer_init fs vocabulary merges
                 (config(''vocabulary'' := None, ''merges'' := None))))"

text \<open>
  Tokenization is inherited from the engine unchanged. The engine's algorithm is not among
  the sources, so it is a parameter \<open>bpe\<close>: a function of the engine part of the object
  and the text.
\<close>

definition tokenize ::
  "(BytePairTokenizer \<Rightarrow> string \<Rightarrow> int list) \<Rightarrow> GPTNeoXTokenizer \<Rightarrow> string \<Rightarrow> int list" where
  "tokenize bpe self text = bpe (BytePairTokenizer.truncate self) text"

subsection \<open>Calls on a constructed tokenizer\<close>






section \<open>A concrete scenario\<close>

text \<open>The vocabulary of the specification's concrete scenario, in memory and as a file.\<close>

definition scenario_vocabulary :: "string \<rightharpoonup> int" where
  "scenario_vocabulary =
     [''[PAD]'' \<mapsto> 0, ''[UNK]'' \<mapsto> 1, ''<|endoftext|>'' \<mapsto> 2, ''a'' \<mapsto> 3, ''b'' \<mapsto> 4]"

definition scenario_files :: files where
  "scenario_files =
     \<lparr>json_files = [''vocab.json'' \<mapsto> scenario_vocabulary],
      merge_files = [''merges.txt'' \<mapsto> [''a b'']]\<rparr>"

section \<open>How construction succeeds and fails\<close>

lemma duplicate_keyword_None:
  "duplicate_keyword [''vocabulary'', ''merges'', ''unsplittable_tokens''] kwargs = None
   \<longleftrightarrow> kwargs ''vocabulary'' = None \<and> kwargs ''merges'' = None
       \<and> kwargs ''unsplittable_tokens'' = None"
  by (auto simp: duplicate_keyword_def)

lemma init_success:
  assumes "kwargs ''vocabulary'' = None" "kwargs ''merges'' = None"
    "kwargs ''unsplittable_tokens'' = None"
    and "load_vocabulary fs vocabulary = Inr v"
    and "load_merges fs merges = Inr ms"
    and "v end_token = Some i"
  shows "GPTNeoXTokenizer_init fs vocabulary merges kwargs =
    Inr \<lparr>vocab_map = v, merge_rules = ms, unsplittable = [end_token],
         engine_options = kwargs, end_token_id = i, start_token_id = i, pad_token_id = 0\<rparr>"
proof -
  from assms(1-3)
  have "duplicate_keyword [''vocabulary'', ''merges'', ''unsplittable_tokens''] kwargs = None"
    by (simp add: duplicate_keyword_None)
  with assms(4-6) show ?thesis
    by (simp add: GPTNeoXTokenizer_init_def super_init_def
      BytePairTokenizer_init_def get_vocabulary_def token_to_id_def
      BytePairTokenizer.extend_def GPTNeoXTokenizer.fields_def domIff)
qed

lemma init_missing:
  assumes "kwargs ''vocabulary'' = None" "kwargs ''merges'' = None"
    "kwargs ''unsplittable_tokens'' = None"
    and "load_vocabulary fs vocabulary = Inr v"
    and "load_merges fs merges = Inr ms"
    and "v end_token = None"
  shows "GPTNeoXTokenizer_init fs vocabulary merges kwargs =
    Inl (ValueError (cannot_find_token end_token))"
proof -
  from assms(1-3)
  have "duplicate_keyword [''vocabulary'', ''merges'', ''unsplittable_tokens''] kwargs = None"
    by (simp add: duplicate_keyword_None)
  with assms(4-6) show ?thesis
    by (simp add: GPTNeoXTokenizer_init_def super_init_def
      BytePairTokenizer_init_def get_vocabulary_def domIff)
qed

lemma init_InrD:
  assumes "GPTNeoXTokenizer_init fs vocabulary merges kwargs = Inr t"
  shows "\<exists>v ms i. kwargs ''vocabulary'' = None \<and> kwargs ''merges'' = None
      \<and> kwargs ''unsplittable_tokens'' = None
      \<and> load_vocabulary fs vocabulary = Inr v \<and> load_merges fs merges = Inr ms
      \<and> v end_token = Some i
      \<and> t = \<lparr>vocab_map = v, merge_rules = ms, unsplittable = [end_token],
         engine_options = kwargs, end_token_id = i, start_token_id = i, pad_token_id = 0\<rparr>"
proof -
  from assms
  have dup: "duplicate_keyword [''vocabulary'', ''merges'', ''unsplittable_tokens''] kwargs = None"
    by (auto simp: GPTNeoXTokenizer_init_def super_init_def split: option.splits)
  from assms dup obtain v where v: "load_vocabulary fs vocabulary = Inr v"
    by (auto simp: GPTNeoXTokenizer_init_def super_init_def BytePairTokenizer_init_def
        split: sum.splits)
  from assms dup v obtain ms where ms: "load_merges fs merges = Inr ms"
    by (auto simp: GPTNeoXTokenizer_init_def super_init_def BytePairTokenizer_init_def
        split: sum.splits)
  from assms dup v ms obtain i where i: "v end_token = Some i"
    by (auto simp: GPTNeoXTokenizer_init_def super_init_def BytePairTokenizer_init_def
        get_vocabulary_def domIff split: if_splits)
  from dup have k: "kwargs ''vocabulary'' = None" "kwargs ''merges'' = None"
      "kwargs ''unsplittable_tokens'' = None"
    by (simp_all add: duplicate_keyword_None)
  from init_success[OF k v ms i] assms k v ms i show ?thesis by simp
qed

lemma scenario_loads:
  "load_vocabulary fs (PyDict d) = Inr d"
  "load_merges fs (PyList ms) = Inr ms"
  "load_vocabulary scenario_files (PyStr ''vocab.json'') = Inr scenario_vocabulary"
  "load_merges scenario_files (PyStr ''merges.txt'') = Inr [''a b'']"
  by (simp_all add: load_vocabulary_def load_merges_def scenario_files_def)

lemma scenario_end_token: "scenario_vocabulary end_token = Some 2"
  by (simp add: scenario_vocabulary_def end_token_def)

section \<open>Claims\<close>

lemma init_success_no_kwargs:
  assumes "load_vocabulary fs vocabulary = Inr v"
    and "load_merges fs merges = Inr ms"
    and "v end_token = Some i"
  shows "GPTNeoXTokenizer_init fs vocabulary merges Map.empty =
    Inr \<lparr>vocab_map = v, merge_rules = ms, unsplittable = [end_token],
         engine_options = Map.empty, end_token_id = i, start_token_id = i,
         pad_token_id = 0\<rparr>"
  by (rule init_success[OF _ _ _ assms]) simp_all

lemma scenario_has_end_token: "end_token \<in> dom scenario_vocabulary"
  by (simp add: scenario_end_token domIff)

text \<open>
  C1. For every vocabulary, given in memory or as a file reference, that contains
  \<^verbatim>\<open><|endoftext|>\<close>, construction succeeds, and \<open>end_token_id\<close> is the id that a
  direct lookup of \<^verbatim>\<open><|endoftext|>\<close> in the tokenizer's vocabulary gives. The other
  arguments are ones the engine accepts: the merges resolve, and the keyword arguments do
  not repeat a keyword that the wrapper passes itself.
\<close>

theorem construction_succeeds_with_end_token:
  assumes "load_vocabulary fs vocabulary = Inr v"
    and "end_token \<in> dom v"
    and "load_merges fs merges = Inr ms"
    and "kwargs ''vocabulary'' = None" "kwargs ''merges'' = None"
      "kwargs ''unsplittable_tokens'' = None"
  shows "\<exists>t. GPTNeoXTokenizer_init fs vocabulary merges kwargs = Inr t
      \<and> get_vocabulary t = v
      \<and> token_to_id t end_token = Inr (end_token_id t)
      \<and> v end_token = Some (end_token_id t)"
proof -
  from assms(2) obtain i where i: "v end_token = Some i" by auto
  from init_success[OF assms(4-6) assms(1) assms(3) i] i show ?thesis
    by (simp add: get_vocabulary_def token_to_id_def)
qed

theorem construction_succeeds_with_end_token_witness:
  "(\<exists>t. GPTNeoXTokenizer_init scenario_files (PyDict scenario_vocabulary) (PyList [''a b''])
          Map.empty = Inr t
        \<and> end_token_id t = 2 \<and> token_to_id t ''<|endoftext|>'' = Inr 2)
   \<and> (\<exists>t. GPTNeoXTokenizer_init scenario_files (PyStr ''vocab.json'') (PyStr ''merges.txt'')
          Map.empty = Inr t
        \<and> end_token_id t = 2 \<and> token_to_id t ''<|endoftext|>'' = Inr 2)"
proof -
  from construction_succeeds_with_end_token
      [where kwargs = Map.empty, OF scenario_loads(1) [of scenario_files]
        scenario_has_end_token scenario_loads(2) [of _ "[''a b'']"]]
  have a: "\<exists>t. GPTNeoXTokenizer_init scenario_files (PyDict scenario_vocabulary)
          (PyList [''a b'']) Map.empty = Inr t
        \<and> end_token_id t = 2 \<and> token_to_id t ''<|endoftext|>'' = Inr 2"
    by (auto simp: scenario_vocabulary_def end_token_def)
  from construction_succeeds_with_end_token
      [where kwargs = Map.empty, OF scenario_loads(3) scenario_has_end_token
        scenario_loads(4)]
  have b: "\<exists>t. GPTNeoXTokenizer_init scenario_files (PyStr ''vocab.json'')
          (PyStr ''merges.txt'') Map.empty = Inr t
        \<and> end_token_id t = 2 \<and> token_to_id t ''<|endoftext|>'' = Inr 2"
    by (auto simp: scenario_vocabulary_def end_token_def)
  from a b show ?thesis by blast
qed

lemma message_names_token: "sublist ''<|endoftext|>'' (cannot_find_token end_token)"
  by code_simp

lemma message_remedy:
  "sublist ''Please provide'' (cannot_find_token end_token)"
  "sublist ('' in your '' @ backquoted ''vocabulary'' @ '' or use a pretrained ''
     @ backquoted ''vocabulary'' @ '' name.'') (cannot_find_token end_token)"
  by code_simp+

text \<open>
  C2. For every vocabulary that does not contain \<^verbatim>\<open><|endoftext|>\<close>, construction
  produces no tokenizer, whatever the other arguments are; and with arguments the engine
  accepts it fails with the \<open>ValueError\<close> whose message names the token
  \<^verbatim>\<open><|endoftext|>\<close> and tells the caller to provide it in the vocabulary or to use
  a pretrained vocabulary name.
\<close>

theorem construction_fails_without_end_token:
  assumes "load_vocabulary fs vocabulary = Inr v"
    and "end_token \<notin> dom v"
  shows "(\<forall>merges kwargs t. GPTNeoXTokenizer_init fs vocabulary merges kwargs \<noteq> Inr t)
    \<and> (\<forall>merges kwargs ms.
          load_merges fs merges = Inr ms \<and> kwargs ''vocabulary'' = None
          \<and> kwargs ''merges'' = None \<and> kwargs ''unsplittable_tokens'' = None
          \<longrightarrow> GPTNeoXTokenizer_init fs vocabulary merges kwargs
                = Inl (ValueError (cannot_find_token end_token)))
    \<and> sublist ''<|endoftext|>'' (cannot_find_token end_token)
    \<and> sublist ''Please provide'' (cannot_find_token end_token)
    \<and> sublist ('' in your '' @ backquoted ''vocabulary'' @ '' or use a pretrained ''
           @ backquoted ''vocabulary'' @ '' name.'') (cannot_find_token end_token)"
proof (intro conjI allI impI)
  fix merges and kwargs :: "string \<rightharpoonup> py_value" and t
  show "GPTNeoXTokenizer_init fs vocabulary merges kwargs \<noteq> Inr t"
  proof
    assume "GPTNeoXTokenizer_init fs vocabulary merges kwargs = Inr t"
    from init_InrD[OF this] assms show False by auto
  qed
next
  fix merges and kwargs :: "string \<rightharpoonup> py_value" and ms
  assume "load_merges fs merges = Inr ms \<and> kwargs ''vocabulary'' = None
          \<and> kwargs ''merges'' = None \<and> kwargs ''unsplittable_tokens'' = None"
  with assms show "GPTNeoXTokenizer_init fs vocabulary merges kwargs
                = Inl (ValueError (cannot_find_token end_token))"
    by (intro init_missing[where v = v and ms = ms]) (auto simp: domIff)
next
  show "sublist ''<|endoftext|>'' (cannot_find_token end_token)"
    by (rule message_names_token)
next
  show "sublist ''Please provide'' (cannot_find_token end_token)"
    by (rule message_remedy(1))
next
  show "sublist ('' in your '' @ backquoted ''vocabulary'' @ '' or use a pretrained ''
           @ backquoted ''vocabulary'' @ '' name.'') (cannot_find_token end_token)"
    by (rule message_remedy(2))
qed

theorem construction_fails_without_end_token_witness:
  "GPTNeoXTokenizer_init scenario_files
      (PyDict [''[PAD]'' \<mapsto> 0, ''[UNK]'' \<mapsto> 1, ''a'' \<mapsto> 2, ''b'' \<mapsto> 3])
      (PyList [''a b'']) Map.empty
    = Inl (ValueError (cannot_find_token ''<|endoftext|>''))
   \<and> sublist ''<|endoftext|>'' (cannot_find_token ''<|endoftext|>'')"
proof -
  let ?v = "[''[PAD]'' \<mapsto> 0, ''[UNK]'' \<mapsto> 1, ''a'' \<mapsto> 2, ''b'' \<mapsto> (3::int)]"
  have d: "end_token \<notin> dom ?v"
    by (simp add: end_token_def)
  note c = construction_fails_without_end_token
      [OF scenario_loads(1) [of scenario_files ?v] d]
  from c have r: "\<forall>merges kwargs ms.
          load_merges scenario_files merges = Inr ms \<and> kwargs ''vocabulary'' = None
          \<and> kwargs ''merges'' = None \<and> kwargs ''unsplittable_tokens'' = None
          \<longrightarrow> GPTNeoXTokenizer_init scenario_files (PyDict ?v) merges kwargs
                = Inl (ValueError (cannot_find_token end_token))"
    by (rule conjunct2 [THEN conjunct1])
  have "GPTNeoXTokenizer_init scenario_files (PyDict ?v) (PyList [''a b'']) Map.empty
         = Inl (ValueError (cannot_find_token end_token))"
    by (rule r [rule_format, where ms = "[''a b'']"]) (simp add: scenario_loads)
  with c show ?thesis
    by (simp add: end_token_def)
qed

text \<open>
  C7. For the vocabulary \<^verbatim>\<open>{"[PAD]":0, "[UNK]":1, "<|endoftext|>":2, "a":3, "b":4}\<close>
  construction succeeds and gives \<open>end_token_id = 2\<close>, \<open>start_token_id = 2\<close> and
  \<open>pad_token_id = 0\<close>.
\<close>

theorem scenario_token_ids:
  "\<exists>t. GPTNeoXTokenizer_init fs
          (PyDict [''[PAD]'' \<mapsto> 0, ''[UNK]'' \<mapsto> 1, ''<|endoftext|>'' \<mapsto> 2,
                   ''a'' \<mapsto> 3, ''b'' \<mapsto> 4])
          (PyList ms) Map.empty = Inr t
      \<and> end_token_id t = 2 \<and> start_token_id t = 2 \<and> pad_token_id t = 0"
proof -
  have "GPTNeoXTokenizer_init fs (PyDict scenario_vocabulary) (PyList ms) Map.empty =
    Inr \<lparr>vocab_map = scenario_vocabulary, merge_rules = ms, unsplittable = [end_token],
         engine_options = Map.empty, end_token_id = 2, start_token_id = 2,
         pad_token_id = 0\<rparr>"
    by (rule init_success_no_kwargs[where v = scenario_vocabulary])
      (simp_all add: scenario_loads scenario_end_token)
  then show ?thesis
    by (simp add: scenario_vocabulary_def)
qed

text \<open>
  C8. GPTNeoX uses \<^verbatim>\<open><|endoftext|>\<close> as start and as end marker: in every
  constructed tokenizer \<open>start_token_id\<close> and \<open>end_token_id\<close> hold the same id.
\<close>

theorem start_token_id_is_end_token_id:
  assumes "GPTNeoXTokenizer_init fs vocabulary merges kwargs = Inr t"
  shows "start_token_id t = end_token_id t"
  using init_InrD[OF assms] by auto

theorem start_token_id_is_end_token_id_witness:
  "GPTNeoXTokenizer_init scenario_files (PyStr ''vocab.json'') (PyStr ''merges.txt'')
      [''sequence_length'' \<mapsto> PyInt 8]
    = Inr \<lparr>vocab_map = scenario_vocabulary, merge_rules = [''a b''],
           unsplittable = [''<|endoftext|>''],
           engine_options = [''sequence_length'' \<mapsto> PyInt 8],
           end_token_id = 2, start_token_id = 2, pad_token_id = 0\<rparr>
   \<and> start_token_id \<lparr>vocab_map = scenario_vocabulary, merge_rules = [''a b''],
           unsplittable = [''<|endoftext|>''],
           engine_options = [''sequence_length'' \<mapsto> PyInt 8],
           end_token_id = 2, start_token_id = 2, pad_token_id = 0\<rparr>
     = end_token_id \<lparr>vocab_map = scenario_vocabulary, merge_rules = [''a b''],
           unsplittable = [''<|endoftext|>''],
           engine_options = [''sequence_length'' \<mapsto> PyInt 8],
           end_token_id = 2, start_token_id = 2, pad_token_id = 0\<rparr>"
proof -
  have h: "GPTNeoXTokenizer_init scenario_files (PyStr ''vocab.json'') (PyStr ''merges.txt'')
      [''sequence_length'' \<mapsto> PyInt 8]
    = Inr \<lparr>vocab_map = scenario_vocabulary, merge_rules = [''a b''],
           unsplittable = [''<|endoftext|>''],
           engine_options = [''sequence_length'' \<mapsto> PyInt 8],
           end_token_id = 2, start_token_id = 2, pad_token_id = 0\<rparr>"
    using init_success[where kwargs = "[''sequence_length'' \<mapsto> PyInt 8]"
        and fs = scenario_files and vocabulary = "PyStr ''vocab.json''"
        and merges = "PyStr ''merges.txt''" and v = scenario_vocabulary
        and ms = "[''a b'']" and i = 2]
    by (simp add: end_token_def scenario_loads scenario_end_token [unfolded end_token_def])
  from h start_token_id_is_end_token_id[OF h] show ?thesis by blast
qed

text \<open>
  C10. \<open>pad_token_id\<close> is the constant 0 in every constructed tokenizer. The constructor
  looks up no pad token: a vocabulary that has \<^verbatim>\<open><|endoftext|>\<close> is accepted
  whatever it holds for \<^verbatim>\<open>[PAD]\<close>, nothing or any id.
\<close>

theorem pad_token_id_is_zero:
  "(\<forall>t. GPTNeoXTokenizer_init fs vocabulary merges kwargs = Inr t \<longrightarrow> pad_token_id t = 0)
   \<and> (end_token \<in> dom v \<longrightarrow>
        (\<exists>t. GPTNeoXTokenizer_init fs (PyDict v) (PyList ms) Map.empty = Inr t
           \<and> pad_token_id t = 0 \<and> get_vocabulary t ''[PAD]'' = v ''[PAD]''))"
proof (intro conjI allI impI)
  fix t
  assume "GPTNeoXTokenizer_init fs vocabulary merges kwargs = Inr t"
  from init_InrD[OF this] show "pad_token_id t = 0" by auto
next
  assume "end_token \<in> dom v"
  then obtain i where i: "v end_token = Some i" by auto
  from init_success_no_kwargs[where v = v and ms = ms and i = i
      and vocabulary = "PyDict v" and merges = "PyList ms" and fs = fs] i
  show "\<exists>t. GPTNeoXTokenizer_init fs (PyDict v) (PyList ms) Map.empty = Inr t
           \<and> pad_token_id t = 0 \<and> get_vocabulary t ''[PAD]'' = v ''[PAD]''"
    by (simp add: get_vocabulary_def scenario_loads)
qed

theorem pad_token_id_is_zero_witness:
  "(\<exists>t. GPTNeoXTokenizer_init scenario_files
          (PyDict [''<|endoftext|>'' \<mapsto> 0, ''a'' \<mapsto> 1]) (PyList []) Map.empty = Inr t
        \<and> pad_token_id t = 0 \<and> get_vocabulary t ''[PAD]'' = None)
   \<and> (\<exists>t. GPTNeoXTokenizer_init scenario_files
          (PyDict [''<|endoftext|>'' \<mapsto> 0, ''[PAD]'' \<mapsto> 1]) (PyList []) Map.empty = Inr t
        \<and> pad_token_id t = 0 \<and> get_vocabulary t ''[PAD]'' = Some 1)"
proof -
  let ?v = "[''<|endoftext|>'' \<mapsto> 0, ''a'' \<mapsto> (1::int)]"
  let ?w = "[''<|endoftext|>'' \<mapsto> 0, ''[PAD]'' \<mapsto> (1::int)]"
  have d: "end_token \<in> dom ?v" "end_token \<in> dom ?w"
    by (simp_all add: end_token_def)
  from pad_token_id_is_zero[where fs = scenario_files and v = ?v and ms = "[]",
      THEN conjunct2, THEN mp, OF d(1)]
  have a: "\<exists>t. GPTNeoXTokenizer_init scenario_files (PyDict ?v) (PyList []) Map.empty = Inr t
        \<and> pad_token_id t = 0 \<and> get_vocabulary t ''[PAD]'' = None"
    by simp
  from pad_token_id_is_zero[where fs = scenario_files and v = ?w and ms = "[]",
      THEN conjunct2, THEN mp, OF d(2)]
  have b: "\<exists>t. GPTNeoXTokenizer_init scenario_files (PyDict ?w) (PyList []) Map.empty = Inr t
        \<and> pad_token_id t = 0 \<and> get_vocabulary t ''[PAD]'' = Some 1"
    by simp
  from a b show ?thesis by blast
qed






text \<open>
  C6, as stated: the engine receives the variant's special tokens unioned with the
  caller's unsplittable tokens. It fails when the caller supplies any: the call repeats
  the keyword \<open>unsplittable_tokens\<close> and raises \<open>TypeError\<close>, so no engine is built.
\<close>

theorem caller_unsplittable_tokens_rejected:
  "GPTNeoXTokenizer_init scenario_files
      (PyDict [''[PAD]'' \<mapsto> 0, ''[UNK]'' \<mapsto> 1, ''<|endoftext|>'' \<mapsto> 2,
               ''a'' \<mapsto> 3, ''b'' \<mapsto> 4])
      (PyList [''a b'']) [''unsplittable_tokens'' \<mapsto> PyList [''[UNK]'']]
    = Inl (TypeError ''unsplittable_tokens'')"
  by (simp add: GPTNeoXTokenizer_init_def super_init_def duplicate_keyword_def)

text \<open>
  C6, amended. Every construction that succeeds has forwarded the vocabulary, the merges
  and the keyword arguments to the engine constructor with exactly
  \<^verbatim>\<open>["<|endoftext|>"]\<close> as the unsplittable tokens: the engine part of the tokenizer
  is what that constructor returns, and the caller has supplied no unsplittable tokens.
\<close>

theorem engine_receives_end_token_only:
  assumes "GPTNeoXTokenizer_init fs vocabulary merges kwargs = Inr t"
  shows "BytePairTokenizer_init fs vocabulary merges [''<|endoftext|>''] kwargs
      = Inr (BytePairTokenizer.truncate t)
    \<and> unsplittable t = [''<|endoftext|>'']
    \<and> kwargs ''unsplittable_tokens'' = None"
proof -
  from init_InrD[OF assms] obtain v ms i where
    "load_vocabulary fs vocabulary = Inr v" "load_merges fs merges = Inr ms"
    "kwargs ''unsplittable_tokens'' = None"
    "t = \<lparr>vocab_map = v, merge_rules = ms, unsplittable = [end_token],
         engine_options = kwargs, end_token_id = i, start_token_id = i, pad_token_id = 0\<rparr>"
    by blast
  then show ?thesis
    by (simp add: BytePairTokenizer_init_def BytePairTokenizer.truncate_def end_token_def)
qed

theorem engine_receives_end_token_only_witness:
  "GPTNeoXTokenizer_init scenario_files (PyStr ''vocab.json'') (PyStr ''merges.txt'')
      [''add_prefix_space'' \<mapsto> PyBool True]
    = Inr \<lparr>vocab_map = scenario_vocabulary, merge_rules = [''a b''],
           unsplittable = [''<|endoftext|>''],
           engine_options = [''add_prefix_space'' \<mapsto> PyBool True],
           end_token_id = 2, start_token_id = 2, pad_token_id = 0\<rparr>
   \<and> BytePairTokenizer_init scenario_files (PyStr ''vocab.json'') (PyStr ''merges.txt'')
        [''<|endoftext|>''] [''add_prefix_space'' \<mapsto> PyBool True]
     = Inr \<lparr>vocab_map = scenario_vocabulary, merge_rules = [''a b''],
           unsplittable = [''<|endoftext|>''],
           engine_options = [''add_prefix_space'' \<mapsto> PyBool True]\<rparr>"
proof -
  have h: "GPTNeoXTokenizer_init scenario_files (PyStr ''vocab.json'') (PyStr ''merges.txt'')
      [''add_prefix_space'' \<mapsto> PyBool True]
    = Inr \<lparr>vocab_map = scenario_vocabulary, merge_rules = [''a b''],
           unsplittable = [''<|endoftext|>''],
           engine_options = [''add_prefix_space'' \<mapsto> PyBool True],
           end_token_id = 2, start_token_id = 2, pad_token_id = 0\<rparr>"
    using init_success[where kwargs = "[''add_prefix_space'' \<mapsto> PyBool True]"
        and fs = scenario_files and vocabulary = "PyStr ''vocab.json''"
        and merges = "PyStr ''merges.txt''" and v = scenario_vocabulary
        and ms = "[''a b'']" and i = 2]
    by (simp add: end_token_def scenario_loads scenario_end_token [unfolded end_token_def])
  from h engine_receives_end_token_only[OF h] show ?thesis
    by (simp add: BytePairTokenizer.truncate_def)
qed

section \<open>Configuration round trip\<close>

lemma get_config_eq:
  "get_config t = Inr ((BytePairTokenizer_get_config t)(''unsplittable_tokens'' := None))"
  by (simp add: get_config_def py_del_def BytePairTokenizer_get_config_def)

lemma config_entries:
  "((BytePairTokenizer_get_config t)(''unsplittable_tokens'' := None)) ''vocabulary''
     = Some (PyDict (vocab_map t))"
  "((BytePairTokenizer_get_config t)(''unsplittable_tokens'' := None)) ''merges''
     = Some (PyList (merge_rules t))"
  "((BytePairTokenizer_get_config t)(''unsplittable_tokens'' := None)) ''unsplittable_tokens''
     = None"
  by (simp_all add: BytePairTokenizer_get_config_def)

lemma config_kwargs:
  assumes "engine_options t ''vocabulary'' = None" "engine_options t ''merges'' = None"
    "engine_options t ''unsplittable_tokens'' = None"
  shows "((BytePairTokenizer_get_config t)(''unsplittable_tokens'' := None))
           (''vocabulary'' := None, ''merges'' := None) = engine_options t"
  using assms by (auto simp: BytePairTokenizer_get_config_def fun_eq_iff)

lemma from_config_round_trip:
  assumes "GPTNeoXTokenizer_init fs vocabulary merges kwargs = Inr t"
  shows "from_config fs' ((BytePairTokenizer_get_config t)(''unsplittable_tokens'' := None))
    = Inr t"
proof -
  from init_InrD[OF assms] obtain v ms i where
    k: "kwargs ''vocabulary'' = None" "kwargs ''merges'' = None"
      "kwargs ''unsplittable_tokens'' = None"
    and i: "v end_token = Some i"
    and t: "t = \<lparr>vocab_map = v, merge_rules = ms, unsplittable = [end_token],
         engine_options = kwargs, end_token_id = i, start_token_id = i, pad_token_id = 0\<rparr>"
    by blast
  from k t have o: "engine_options t ''vocabulary'' = None" "engine_options t ''merges'' = None"
    "engine_options t ''unsplittable_tokens'' = None"
    by simp_all
  have "from_config fs' ((BytePairTokenizer_get_config t)(''unsplittable_tokens'' := None))
    = GPTNeoXTokenizer_init fs' (PyDict v) (PyList ms) kwargs"
    unfolding from_config_def config_entries config_kwargs[OF o]
    by (simp add: t)
  also have "\<dots> = Inr t"
    unfolding t by (rule init_success[where v = v]) (simp_all add: k i scenario_loads)
  finally show ?thesis .
qed

text \<open>
  C4. Round trip: a tokenizer built again from the configuration that \<open>get_config\<close>
  returns has the same start, end and pad ids, and tokenizes every text to the same ids,
  whatever the engine's tokenization function is and whatever the files are at that time.
\<close>

theorem config_round_trip:
  assumes "GPTNeoXTokenizer_init fs vocabulary merges kwargs = Inr t"
  shows "\<exists>config t'. get_config t = Inr config \<and> from_config fs' config = Inr t'
      \<and> start_token_id t' = start_token_id t
      \<and> end_token_id t' = end_token_id t
      \<and> pad_token_id t' = pad_token_id t
      \<and> (\<forall>bpe text. tokenize bpe t' text = tokenize bpe t text)"
  using get_config_eq[of t] from_config_round_trip[OF assms, of fs'] by simp

theorem config_round_trip_witness:
  "GPTNeoXTokenizer_init scenario_files (PyStr ''vocab.json'') (PyStr ''merges.txt'')
      [''sequence_length'' \<mapsto> PyInt 8]
    = Inr \<lparr>vocab_map = scenario_vocabulary, merge_rules = [''a b''],
           unsplittable = [''<|endoftext|>''],
           engine_options = [''sequence_length'' \<mapsto> PyInt 8],
           end_token_id = 2, start_token_id = 2, pad_token_id = 0\<rparr>
   \<and> (\<exists>config t'.
        get_config \<lparr>vocab_map = scenario_vocabulary, merge_rules = [''a b''],
           unsplittable = [''<|endoftext|>''],
           engine_options = [''sequence_length'' \<mapsto> PyInt 8],
           end_token_id = 2, start_token_id = 2, pad_token_id = 0\<rparr> = Inr config
        \<and> from_config \<lparr>json_files = Map.empty, merge_files = Map.empty\<rparr> config = Inr t'
        \<and> start_token_id t' = 2 \<and> end_token_id t' = 2 \<and> pad_token_id t' = 0)"
proof -
  have h: "GPTNeoXTokenizer_init scenario_files (PyStr ''vocab.json'') (PyStr ''merges.txt'')
      [''sequence_length'' \<mapsto> PyInt 8]
    = Inr \<lparr>vocab_map = scenario_vocabulary, merge_rules = [''a b''],
           unsplittable = [''<|endoftext|>''],
           engine_options = [''sequence_length'' \<mapsto> PyInt 8],
           end_token_id = 2, start_token_id = 2, pad_token_id = 0\<rparr>"
    using init_success[where kwargs = "[''sequence_length'' \<mapsto> PyInt 8]"
        and fs = scenario_files and vocabulary = "PyStr ''vocab.json''"
        and merges = "PyStr ''merges.txt''" and v = scenario_vocabulary
        and ms = "[''a b'']" and i = 2]
    by (simp add: end_token_def scenario_loads scenario_end_token [unfolded end_token_def])
  from config_round_trip[OF h, of "\<lparr>json_files = Map.empty, merge_files = Map.empty\<rparr>"]
  have "\<exists>config t'.
        get_config \<lparr>vocab_map = scenario_vocabulary, merge_rules = [''a b''],
           unsplittable = [''<|endoftext|>''],
           engine_options = [''sequence_length'' \<mapsto> PyInt 8],
           end_token_id = 2, start_token_id = 2, pad_token_id = 0\<rparr> = Inr config
        \<and> from_config \<lparr>json_files = Map.empty, merge_files = Map.empty\<rparr> config = Inr t'
        \<and> start_token_id t' = 2 \<and> end_token_id t' = 2 \<and> pad_token_id t' = 0"
    by auto
  with h show ?thesis by blast
qed

text \<open>
  C5. The configuration that \<open>get_config\<close> returns never has the key
  \<open>unsplittable_tokens\<close>; every other entry of the engine's configuration (the
  vocabulary, the merges, the engine options) is in it unchanged; and the tokenizer built
  again from it has the unsplittable tokens of the original.
\<close>

theorem get_config_drops_unsplittable_tokens:
  assumes "GPTNeoXTokenizer_init fs vocabulary merges kwargs = Inr t"
  shows "\<exists>config t'. get_config t = Inr config
      \<and> config ''unsplittable_tokens'' = None
      \<and> (\<forall>k. k \<noteq> ''unsplittable_tokens'' \<longrightarrow> config k = BytePairTokenizer_get_config t k)
      \<and> config ''vocabulary'' = Some (PyDict (vocab_map t))
      \<and> config ''merges'' = Some (PyList (merge_rules t))
      \<and> (\<forall>k. k \<notin> {''vocabulary'', ''merges'', ''unsplittable_tokens''}
            \<longrightarrow> config k = kwargs k)
      \<and> from_config fs' config = Inr t'
      \<and> unsplittable t' = unsplittable t"
proof -
  from init_InrD[OF assms] have o: "engine_options t = kwargs"
    by auto
  show ?thesis
    using get_config_eq[of t] from_config_round_trip[OF assms, of fs'] config_entries[of t] o
    by (simp add: BytePairTokenizer_get_config_def)
qed

theorem get_config_drops_unsplittable_tokens_witness:
  "GPTNeoXTokenizer_init scenario_files (PyDict scenario_vocabulary) (PyList [''a b''])
      [''add_prefix_space'' \<mapsto> PyBool True]
    = Inr \<lparr>vocab_map = scenario_vocabulary, merge_rules = [''a b''],
           unsplittable = [''<|endoftext|>''],
           engine_options = [''add_prefix_space'' \<mapsto> PyBool True],
           end_token_id = 2, start_token_id = 2, pad_token_id = 0\<rparr>
   \<and> (\<exists>config t'.
        get_config \<lparr>vocab_map = scenario_vocabulary, merge_rules = [''a b''],
           unsplittable = [''<|endoftext|>''],
           engine_options = [''add_prefix_space'' \<mapsto> PyBool True],
           end_token_id = 2, start_token_id = 2, pad_token_id = 0\<rparr> = Inr config
        \<and> config ''unsplittable_tokens'' = None
        \<and> config ''vocabulary'' = Some (PyDict scenario_vocabulary)
        \<and> config ''merges'' = Some (PyList [''a b''])
        \<and> config ''add_prefix_space'' = Some (PyBool True)
        \<and> from_config scenario_files config = Inr t'
        \<and> unsplittable t' = [''<|endoftext|>''])"
proof -
  have h: "GPTNeoXTokenizer_init scenario_files (PyDict scenario_vocabulary)
      (PyList [''a b'']) [''add_prefix_space'' \<mapsto> PyBool True]
    = Inr \<lparr>vocab_map = scenario_vocabulary, merge_rules = [''a b''],
           unsplittable = [''<|endoftext|>''],
           engine_options = [''add_prefix_space'' \<mapsto> PyBool True],
           end_token_id = 2, start_token_id = 2, pad_token_id = 0\<rparr>"
    using init_success[where kwargs = "[''add_prefix_space'' \<mapsto> PyBool True]"
        and fs = scenario_files and vocabulary = "PyDict scenario_vocabulary"
        and merges = "PyList [''a b'']" and v = scenario_vocabulary
        and ms = "[''a b'']" and i = 2]
    by (simp add: end_token_def scenario_loads scenario_end_token [unfolded end_token_def])
  from get_config_drops_unsplittable_tokens[OF h, of scenario_files]
  obtain config t' where
    c: "get_config \<lparr>vocab_map = scenario_vocabulary, merge_rules = [''a b''],
           unsplittable = [''<|endoftext|>''],
           engine_options = [''add_prefix_space'' \<mapsto> PyBool True],
           end_token_id = 2, start_token_id = 2, pad_token_id = 0\<rparr> = Inr config"
      "config ''unsplittable_tokens'' = None"
      "config ''vocabulary'' = Some (PyDict scenario_vocabulary)"
      "config ''merges'' = Some (PyList [''a b''])"
      "\<forall>k. k \<notin> {''vocabulary'', ''merges'', ''unsplittable_tokens''}
            \<longrightarrow> config k = [''add_prefix_space'' \<mapsto> PyBool True] k"
      "from_config scenario_files config = Inr t'"
      "unsplittable t' = [''<|endoftext|>'']"
    by auto
  from c(5) have "config ''add_prefix_space'' = Some (PyBool True)"
    by simp
  with h c show ?thesis by blast
qed

end
